theory Spec2Isabelle
  imports Main
begin

section \<open>React elements\<close>

text \<open>
  \<^verbatim>\<open>import styles from './Header.module.css';\<close>

  The style sheet is not part of the sources. A CSS module is an object from class
  names to generated class names; reading a name it does not define yields
  \<^verbatim>\<open>undefined\<close>, here \<open>None\<close>. Every definition takes the imported object as a parameter.
\<close>

type_synonym CSSModuleClasses = "string \<rightharpoonup> string"

text \<open>
  What a JSX expression evaluates to: an element with its tag, its \<^verbatim>\<open>key\<close>
  (which React keeps apart from the props), its props in the order written, and its
  children; a string child; or an array child, as \<^verbatim>\<open>Array.prototype.map\<close> returns one.
\<close>

datatype vnode =
    Element string "string option" "(string \<times> string option) list" "vnode list"
  | TextNode string
  | ArrayNode "vnode list"

section \<open>Header.tsx\<close>

text \<open>
  \<^verbatim>\<open>const buttons = ["Home", "About", "Services", "Contact"];\<close>

  The constant is local to the body of \<^verbatim>\<open>Header\<close>. As a value it is the same list in
  every call; \<open>Header_call\<close> below accounts for the array object each call creates.
\<close>

definition buttons :: "string list" where
  "buttons = [''Home'', ''About'', ''Services'', ''Contact'']"

text \<open>
  The callback handed to \<^verbatim>\<open>buttons.map\<close>:
  \<^verbatim>\<open>
  (label) => (
    <button key={label} className={styles.button}>
      {label}
    </button>
  )
  \<close>
\<close>

definition button :: "CSSModuleClasses \<Rightarrow> string \<Rightarrow> vnode" where
  "button styles label =
     Element ''button'' (Some label) [(''className'', styles ''button'')] [TextNode label]"

text \<open>
  \<^verbatim>\<open>
  const Header = () => {
    const buttons = ["Home", "About", "Services", "Contact"];
    return (
      <header className={styles.header}>
        <div className={styles.buttonContainer}>
          {buttons.map((label) => ( ... ))}
        </div>
      </header>
    );
  };
  \<close>
\<close>

definition Header :: "CSSModuleClasses \<Rightarrow> vnode" where
  "Header styles =
     Element ''header'' None [(''className'', styles ''header'')]
       [Element ''div'' None [(''className'', styles ''buttonContainer'')]
          [ArrayNode (map (button styles) buttons)]]"

section \<open>Reading a rendered tree\<close>

text \<open>The text an element displays: the string children below it, in document order.\<close>

fun text_content :: "vnode \<Rightarrow> string" where
  "text_content (Element t k ps cs) = concat (map text_content cs)"
| "text_content (TextNode s) = s"
| "text_content (ArrayNode ns) = concat (map text_content ns)"

text \<open>Every element of a tree, parents before children, in document order.\<close>

fun elements :: "vnode \<Rightarrow> vnode list" where
  "elements (Element t k ps cs) = Element t k ps cs # concat (map elements cs)"
| "elements (TextNode s) = []"
| "elements (ArrayNode ns) = concat (map elements ns)"

text \<open>React flattens array children: the nodes that end up as DOM children.\<close>

fun flatten :: "vnode \<Rightarrow> vnode list" where
  "flatten (ArrayNode ns) = concat (map flatten ns)"
| "flatten n = [n]"

fun child_nodes :: "vnode \<Rightarrow> vnode list" where
  "child_nodes (Element t k ps cs) = concat (map flatten cs)"
| "child_nodes n = []"

fun tag_of :: "vnode \<Rightarrow> string" where
  "tag_of (Element t k ps cs) = t"
| "tag_of n = []"

fun key_of :: "vnode \<Rightarrow> string option" where
  "key_of (Element t k ps cs) = k"
| "key_of n = None"

fun props_of :: "vnode \<Rightarrow> (string \<times> string option) list" where
  "props_of (Element t k ps cs) = ps"
| "props_of n = []"

text \<open>
  React's event handler props are named \<^verbatim>\<open>on\<close> followed by a capital letter
  (\<^verbatim>\<open>onClick\<close>, \<^verbatim>\<open>onKeyDown\<close>, ...).
\<close>

fun is_event_prop :: "string \<Rightarrow> bool" where
  "is_event_prop (a # b # c # cs) =
     (a = CHR ''o'' \<and> b = CHR ''n'' \<and> c \<in> set ''ABCDEFGHIJKLMNOPQRSTUVWXYZ'')"
| "is_event_prop n = False"

text \<open>
  An element a user can click: a native control, or any element that carries an event
  handler.
\<close>

fun clickable :: "vnode \<Rightarrow> bool" where
  "clickable (Element t k ps cs) =
     (t \<in> set [''button'', ''a'', ''input'', ''select'', ''textarea'', ''summary'']
      \<or> list_ex (\<lambda>p. is_event_prop (fst p) \<and> snd p \<noteq> None) ps)"
| "clickable n = False"

definition clickable_elements :: "vnode \<Rightarrow> vnode list" where
  "clickable_elements n = filter clickable (elements n)"

section \<open>Calling the component\<close>

text \<open>
  What a call of \<^verbatim>\<open>Header\<close> does beyond denoting a tree. An array literal creates a
  new array object each time it is evaluated; the heap lists the label arrays created so
  far, an array's reference being its position. Elements are treated as values.
\<close>

type_synonym heap = "string list list"

definition new_array :: "string list \<Rightarrow> heap \<Rightarrow> nat \<times> heap" where
  "new_array xs h = (length h, h @ [xs])"

text \<open>
  A reference only ever comes from \<open>new_array\<close>, so it is in range
  (\<open>array_at_new_array\<close> below).
\<close>

definition array_at :: "heap \<Rightarrow> nat \<Rightarrow> string list" where
  "array_at h r = h ! r"

text \<open>
  \<^verbatim>\<open>Array.prototype.map\<close>: the callback is applied to the elements from left to right;
  an exception thrown by the callback ends the loop and is thrown by \<^verbatim>\<open>map\<close>.
\<close>

fun array_map :: "('a \<Rightarrow> 'e + 'b) \<Rightarrow> 'a list \<Rightarrow> 'e + 'b list" where
  "array_map f [] = Inr []"
| "array_map f (x # xs) =
     (case f x of
        Inl e \<Rightarrow> Inl e
      | Inr y \<Rightarrow> (case array_map f xs of Inl e \<Rightarrow> Inl e | Inr ys \<Rightarrow> Inr (y # ys)))"

text \<open>
  React calls the component with the props object of the element that names it.
  \<^verbatim>\<open>const Header = () => { ... }\<close> declares no parameter, so the argument is dropped.
  The local \<^verbatim>\<open>buttons\<close> holds the reference of the array its literal creates
  (\<open>buttons_ref\<close>). The body has no \<^verbatim>\<open>throw\<close>; \<open>Inl\<close> is an exception leaving the call.
\<close>

definition Header_call :: "CSSModuleClasses \<Rightarrow> 'props \<Rightarrow> heap \<Rightarrow> 'e + vnode \<times> heap" where
  "Header_call styles props h =
     (let (buttons_ref, h') = new_array [''Home'', ''About'', ''Services'', ''Contact''] h in
      case array_map (\<lambda>label. Inr (button styles label)) (array_at h' buttons_ref) of
        Inl e \<Rightarrow> Inl e
      | Inr bs \<Rightarrow>
          Inr (Element ''header'' None [(''className'', styles ''header'')]
                 [Element ''div'' None [(''className'', styles ''buttonContainer'')]
                    [ArrayNode bs]],
               h'))"

text \<open>The tree a call returns, or the exception it throws, without the heap.\<close>

definition output_of :: "'e + vnode \<times> heap \<Rightarrow> 'e + vnode" where
  "output_of r = map_sum id fst r"

text \<open>A style sheet that defines the three classes the component reads.\<close>

definition example_styles :: CSSModuleClasses where
  "example_styles =
     [''header'' \<mapsto> ''_header_x1'', ''buttonContainer'' \<mapsto> ''_buttonContainer_x1'',
      ''button'' \<mapsto> ''_button_x1'']"

section \<open>The build configuration\<close>

text \<open>
  \<^verbatim>\<open>
  import { defineConfig } from 'vite'
  import react from '@vitejs/plugin-react'
  \<close>

  Both packages are external. A plugin is an opaque value of type \<open>'p\<close>; a call into a
  package returns (\<open>Inr\<close>) or throws (\<open>Inl\<close>), and a dynamic import resolves to the
  module (\<open>Inr\<close>) or rejects (\<open>Inl\<close>). The module object of \<^verbatim>\<open>@mdx-js/rollup\<close> is read
  only at its \<^verbatim>\<open>default\<close> export.
\<close>

record ('e, 'p) mdx_module =
  default_export :: "unit \<Rightarrow> 'e + 'p"

text \<open>The values the fields of the returned object hold.\<close>

datatype 'p config_value = StringValue string | PluginList "'p list"

text \<open>An object literal: its fields in the order written.\<close>

type_synonym 'p UserConfig = "(string \<times> 'p config_value) list"

text \<open>Vite's \<^verbatim>\<open>defineConfig\<close> returns its argument; it is there for the editor's types.\<close>

definition defineConfig :: "'a \<Rightarrow> 'a" where
  "defineConfig config = config"

text \<open>
  \<^verbatim>\<open>
  export default defineConfig(async () => {
    const mdx = await import('@mdx-js/rollup');

    return {
      base: "https://tcm5343.github.io/",
      plugins: [react(), mdx.default()],
    }
  });
  \<close>

  Vite calls the exported function with its environment; the function declares no
  parameter. The result of the \<^verbatim>\<open>async\<close> function is the promise's outcome: \<open>Inr\<close> the
  value it resolves to, \<open>Inl\<close> the reason it rejects with.
\<close>

definition vite_config ::
  "(unit \<Rightarrow> 'e + 'p) \<Rightarrow> (string \<Rightarrow> 'e + ('e, 'p) mdx_module) \<Rightarrow> 'env \<Rightarrow> 'e + 'p UserConfig"
where
  "vite_config react import_module =
     defineConfig (\<lambda>env.
       case import_module ''@mdx-js/rollup'' of
         Inl e \<Rightarrow> Inl e
       | Inr mdx \<Rightarrow>
           (case react () of
              Inl e \<Rightarrow> Inl e
            | Inr react_plugin \<Rightarrow>
                (case default_export mdx () of
                   Inl e \<Rightarrow> Inl e
                 | Inr mdx_plugin \<Rightarrow>
                     Inr [(''base'', StringValue ''https://tcm5343.github.io/''),
                          (''plugins'', PluginList [react_plugin, mdx_plugin])])))"

section \<open>Reading a configuration\<close>

definition field_names :: "'p UserConfig \<Rightarrow> string list" where
  "field_names cfg = map fst cfg"

definition base_of :: "'p UserConfig \<Rightarrow> string option" where
  "base_of cfg = (case map_of cfg ''base'' of Some (StringValue b) \<Rightarrow> Some b | _ \<Rightarrow> None)"

text \<open>The bundler registers the entries of \<^verbatim>\<open>plugins\<close>; without the field, none.\<close>

definition plugins_of :: "'p UserConfig \<Rightarrow> 'p list" where
  "plugins_of cfg = (case map_of cfg ''plugins'' of Some (PluginList ps) \<Rightarrow> ps | _ \<Rightarrow> [])"

text \<open>A URL with a scheme and a host, as opposed to a path such as \<^verbatim>\<open>/\<close> or \<^verbatim>\<open>./\<close>.\<close>

definition is_absolute_url :: "string \<Rightarrow> bool" where
  "is_absolute_url url =
     (take 8 url = ''https://'' \<and> 8 < length url \<and> url ! 8 \<noteq> CHR ''/''
      \<or> take 7 url = ''http://'' \<and> 7 < length url \<and> url ! 7 \<noteq> CHR ''/'')"

section \<open>Sample surroundings\<close>

text \<open>Packages that load and return a plugin each, named by a string.\<close>

definition example_react :: "unit \<Rightarrow> string + string" where
  "example_react u = Inr ''vite:react''"

definition example_import :: "string \<Rightarrow> string + (string, string) mdx_module" where
  "example_import specifier =
     (if specifier = ''@mdx-js/rollup''
      then Inr \<lparr>default_export = (\<lambda>u. Inr ''@mdx-js/rollup'')\<rparr>
      else Inl ''ERR_MODULE_NOT_FOUND'')"

text \<open>An installation without the MDX package: every dynamic import rejects.\<close>

definition missing_import :: "string \<Rightarrow> string + (string, string) mdx_module" where
  "missing_import specifier = Inl ''ERR_MODULE_NOT_FOUND''"

section \<open>The buttons of the header\<close>

lemma text_content_button: "text_content (button styles label) = label"
  by (simp add: button_def)

lemma elements_button: "elements (button styles label) = [button styles label]"
  by (simp add: button_def)

lemma clickable_button: "clickable (button styles label)"
  by (simp add: button_def)

lemma flatten_button: "flatten (button styles label) = [button styles label]"
  by (simp add: button_def)

lemma elements_buttons:
  "concat (map elements (map (button styles) ls)) = map (button styles) ls"
  by (induction ls) (simp_all add: elements_button)

lemma flatten_buttons:
  "concat (map flatten (map (button styles) ls)) = map (button styles) ls"
  by (induction ls) (simp_all add: flatten_button)

lemma filter_clickable_buttons:
  "filter clickable (map (button styles) ls) = map (button styles) ls"
  by (induction ls) (simp_all add: clickable_button)

lemma filter_tag_buttons:
  "filter (\<lambda>n. tag_of n = ''button'') (map (button styles) ls) = map (button styles) ls"
  by (induction ls) (simp_all add: button_def)

lemma text_content_buttons: "map text_content (map (button styles) ls) = ls"
  by (induction ls) (simp_all add: text_content_button)

lemma key_of_buttons: "map key_of (map (button styles) ls) = map Some ls"
  by (induction ls) (simp_all add: button_def)

lemma tag_of_buttons:
  "map tag_of (map (button styles) ls) = map (\<lambda>label. ''button'') ls"
  by (induction ls) (simp_all add: button_def)

lemma props_of_buttons:
  "map props_of (map (button styles) ls)
     = map (\<lambda>label. [(''className'', styles ''button'')]) ls"
  by (induction ls) (simp_all add: button_def)

lemma text_key_buttons:
  "map (\<lambda>b. Some (text_content b)) (map (button styles) ls) = map Some ls"
  by (induction ls) (simp_all add: text_content_button)

lemma distinct_buttons: "distinct buttons"
  by (simp add: buttons_def)

section \<open>The rendered tree\<close>

lemma elements_Header:
  "elements (Header styles) =
     Header styles
     # Element ''div'' None [(''className'', styles ''buttonContainer'')]
         [ArrayNode (map (button styles) buttons)]
     # map (button styles) buttons"
  using elements_buttons [of styles buttons] by (simp add: Header_def)

lemma clickable_elements_Header:
  "clickable_elements (Header styles) = map (button styles) buttons"
  by (simp add: clickable_elements_def elements_Header filter_clickable_buttons)
    (simp add: Header_def)

lemma button_elements_Header:
  "filter (\<lambda>n. tag_of n = ''button'') (elements (Header styles)) = map (button styles) buttons"
  by (simp add: elements_Header filter_tag_buttons) (simp add: Header_def)

lemma child_nodes_Header:
  "child_nodes (Header styles) =
     [Element ''div'' None [(''className'', styles ''buttonContainer'')]
        [ArrayNode (map (button styles) buttons)]]"
  by (simp add: Header_def)

lemma child_nodes_container:
  "child_nodes (Element ''div'' None ps [ArrayNode (map (button styles) ls)])
     = map (button styles) ls"
  using flatten_buttons [of styles ls] by simp

text \<open>
  C1. Rendering the header gives exactly four clickable elements, all of them
  \<^verbatim>\<open>button\<close> elements, in the order Home, About, Services, Contact; the content of each
  is its label and nothing else, and the tree holds no other clickable element.
\<close>

theorem Header_four_buttons:
  "length (clickable_elements (Header styles)) = 4
   \<and> map tag_of (clickable_elements (Header styles))
       = [''button'', ''button'', ''button'', ''button'']
   \<and> map text_content (clickable_elements (Header styles))
       = [''Home'', ''About'', ''Services'', ''Contact'']
   \<and> map child_nodes (clickable_elements (Header styles))
       = [[TextNode ''Home''], [TextNode ''About''], [TextNode ''Services''],
          [TextNode ''Contact'']]"
  unfolding clickable_elements_Header
  by (simp add: buttons_def button_def)

text \<open>
  C5. The rendered output is a single \<^verbatim>\<open>header\<close> element whose only child is the
  container, a \<^verbatim>\<open>div\<close>; the children of the container are exactly one button per label
  of the list, in the order of the list, and these are all the buttons of the output.
\<close>

theorem Header_container:
  "\<exists>container.
      child_nodes (Header styles) = [container]
    \<and> tag_of (Header styles) = ''header''
    \<and> tag_of container = ''div''
    \<and> child_nodes container = map (button styles) buttons
    \<and> map tag_of (child_nodes container) = map (\<lambda>label. ''button'') buttons
    \<and> map text_content (child_nodes container) = buttons
    \<and> length (child_nodes container) = length buttons
    \<and> filter (\<lambda>n. tag_of n = ''button'') (elements (Header styles)) = child_nodes container"
proof -
  let ?c = "Element ''div'' None [(''className'', styles ''buttonContainer'')]
              [ArrayNode (map (button styles) buttons)]"
  have c: "child_nodes ?c = map (button styles) buttons"
    by (rule child_nodes_container)
  have "child_nodes (Header styles) = [?c]"
    by (rule child_nodes_Header)
  moreover have "tag_of (Header styles) = ''header''"
    by (simp add: Header_def)
  moreover have "tag_of ?c = ''div''"
    by simp
  moreover have "map tag_of (child_nodes ?c) = map (\<lambda>label. ''button'') buttons"
    unfolding c by (rule tag_of_buttons)
  moreover have "map text_content (child_nodes ?c) = buttons"
    unfolding c by (rule text_content_buttons)
  moreover have "length (child_nodes ?c) = length buttons"
    unfolding c by simp
  moreover have "filter (\<lambda>n. tag_of n = ''button'') (elements (Header styles)) = child_nodes ?c"
    unfolding c by (rule button_elements_Header)
  ultimately show ?thesis
    using c by blast
qed

text \<open>
  C9. The key of every rendered button is the label it displays; the four labels are
  pairwise distinct, and so are the keys of the rendered buttons.
\<close>

theorem Header_keys:
  "map key_of (clickable_elements (Header styles))
     = map (\<lambda>b. Some (text_content b)) (clickable_elements (Header styles))
   \<and> map key_of (clickable_elements (Header styles)) = map Some buttons
   \<and> distinct buttons
   \<and> distinct (map key_of (clickable_elements (Header styles)))"
proof -
  have k: "map key_of (clickable_elements (Header styles)) = map Some buttons"
    unfolding clickable_elements_Header by (rule key_of_buttons)
  have t: "map (\<lambda>b. Some (text_content b)) (clickable_elements (Header styles))
             = map Some buttons"
    unfolding clickable_elements_Header by (rule text_key_buttons)
  have d: "distinct (map (Some :: string \<Rightarrow> string option) buttons)"
    using distinct_buttons by (simp add: distinct_map)
  show ?thesis
    using k t d distinct_buttons by simp
qed

section \<open>One call of the component\<close>

lemma array_map_Inr: "array_map (\<lambda>x. Inr (f x)) xs = Inr (map f xs)"
  by (induction xs) simp_all

lemma array_at_new_array:
  "new_array xs h = (r, h') \<Longrightarrow> array_at h' r = xs"
  by (auto simp: new_array_def array_at_def)

lemma Header_call_eq:
  "Header_call styles props h =
     Inr (Header styles, h @ [[''Home'', ''About'', ''Services'', ''Contact'']])"
  by (simp add: Header_call_def Header_def buttons_def new_array_def array_at_def
      array_map_Inr)

text \<open>
  C4. No element of the rendered tree carries a prop other than \<^verbatim>\<open>className\<close>: none
  has an event handler, the buttons included. The component reads no props: whatever
  props object it is called with, the call does what the call without props does.
\<close>

theorem Header_no_handlers:
  "map props_of (elements (Header styles))
     = [[(''className'', styles ''header'')],
        [(''className'', styles ''buttonContainer'')],
        [(''className'', styles ''button'')], [(''className'', styles ''button'')],
        [(''className'', styles ''button'')], [(''className'', styles ''button'')]]
   \<and> filter (\<lambda>p. is_event_prop (fst p)) (concat (map props_of (elements (Header styles)))) = []
   \<and> map props_of (clickable_elements (Header styles))
       = map (\<lambda>label. [(''className'', styles ''button'')]) buttons
   \<and> (Header_call styles props h :: 'e + vnode \<times> heap) = Header_call styles () h"
proof -
  have p: "map props_of (elements (Header styles))
     = [[(''className'', styles ''header'')],
        [(''className'', styles ''buttonContainer'')],
        [(''className'', styles ''button'')], [(''className'', styles ''button'')],
        [(''className'', styles ''button'')], [(''className'', styles ''button'')]]"
    unfolding elements_Header
    using props_of_buttons [of styles buttons] by (simp add: Header_def buttons_def)
  have f: "filter (\<lambda>p. is_event_prop (fst p)) (concat (map props_of (elements (Header styles)))) = []"
    unfolding p by simp
  have b: "map props_of (clickable_elements (Header styles))
       = map (\<lambda>label. [(''className'', styles ''button'')]) buttons"
    unfolding clickable_elements_Header by (rule props_of_buttons)
  have c: "(Header_call styles props h :: 'e + vnode \<times> heap) = Header_call styles () h"
    by (simp add: Header_call_eq)
  show ?thesis
    using p f b c by blast
qed

text \<open>
  C2, as the code has it. The label array is a local constant of the component's body:
  every call creates one new array, at a reference no earlier array has, holding the four
  labels. The call only reads it: when the call returns the array still holds the four
  labels, and every array that existed before the call is as it was.
\<close>

theorem Header_creates_buttons_each_call:
  "\<exists>r h'. new_array buttons h = (r, h')
      \<and> (Header_call styles props h :: 'e + vnode \<times> heap) = Inr (Header styles, h')
      \<and> r = length h
      \<and> length h' = Suc (length h)
      \<and> take (length h) h' = h
      \<and> array_at h' r = buttons"
proof -
  let ?h' = "h @ [buttons]"
  have n: "new_array buttons h = (length h, ?h')"
    by (simp add: new_array_def)
  have c: "(Header_call styles props h :: 'e + vnode \<times> heap) = Inr (Header styles, ?h')"
    by (simp add: Header_call_eq buttons_def)
  have a: "array_at ?h' (length h) = buttons"
    using n by (rule array_at_new_array)
  have l: "length ?h' = Suc (length h)" and t: "take (length h) ?h' = h"
    by simp_all
  from n c a l t show ?thesis
    by blast
qed

text \<open>
  C2, as stated, fails: the array is not created once, when the component is defined.
  A call on the empty heap does not leave the heap empty; it creates the array, and the
  next call creates a second one.
\<close>

theorem Header_buttons_not_shared_counterexample:
  "(Header_call example_styles () [] :: unit + vnode \<times> heap)
      \<noteq> Inr (Header example_styles, [])
   \<and> (Header_call example_styles () [] :: unit + vnode \<times> heap)
      = Inr (Header example_styles, [buttons])
   \<and> (Header_call example_styles () [buttons] :: unit + vnode \<times> heap)
      = Inr (Header example_styles, [buttons, buttons])"
  by (simp add: Header_call_eq buttons_def)

text \<open>
  C6. Any two calls of the component, whatever props they are given and whatever the heap
  holds, return the same tree; and a call changes no array that existed before it.
\<close>

theorem Header_deterministic:
  "output_of (Header_call styles props1 h1 :: 'e + vnode \<times> heap)
     = output_of (Header_call styles props2 h2 :: 'e + vnode \<times> heap)
   \<and> output_of (Header_call styles props1 h1 :: 'e + vnode \<times> heap) = Inr (Header styles)
   \<and> (\<exists>h'. (Header_call styles props1 h1 :: 'e + vnode \<times> heap) = Inr (Header styles, h')
          \<and> take (length h1) h' = h1)"
  by (simp add: Header_call_eq output_of_def)

section \<open>The configuration the bundler receives\<close>

lemma vite_config_Inr:
  assumes "import_module ''@mdx-js/rollup'' = Inr mdx"
    and "react () = Inr react_plugin"
    and "default_export mdx () = Inr mdx_plugin"
  shows "vite_config react import_module env =
           Inr [(''base'', StringValue ''https://tcm5343.github.io/''),
                (''plugins'', PluginList [react_plugin, mdx_plugin])]"
  using assms by (simp add: vite_config_def defineConfig_def)

lemma vite_config_Inl:
  assumes "vite_config react import_module env = Inl e"
  shows "import_module ''@mdx-js/rollup'' = Inl e
         \<or> react () = Inl e
         \<or> (\<exists>mdx. import_module ''@mdx-js/rollup'' = Inr mdx \<and> default_export mdx () = Inl e)"
  using assms by (auto simp: vite_config_def defineConfig_def split: sum.splits)

lemma example_import_mdx:
  "example_import ''@mdx-js/rollup''
     = Inr \<lparr>default_export = (\<lambda>u. Inr ''@mdx-js/rollup'')\<rparr>"
  by (simp add: example_import_def)

lemma example_react_plugin: "example_react () = Inr ''vite:react''"
  by (simp add: example_react_def)

lemma example_mdx_plugin:
  "default_export \<lparr>default_export = (\<lambda>u. Inr ''@mdx-js/rollup'' :: string + string)\<rparr> ()
     = Inr ''@mdx-js/rollup''"
  by simp

text \<open>
  C3. When the MDX package loads and both plugin functions return, the configuration has
  the fields \<^verbatim>\<open>base\<close> and \<^verbatim>\<open>plugins\<close> and no other; the plugins registered are exactly
  two, what \<^verbatim>\<open>react()\<close> returned and then what \<^verbatim>\<open>mdx.default()\<close> returned; and a base
  path is set.
\<close>

theorem config_two_plugins_and_base:
  assumes "import_module ''@mdx-js/rollup'' = Inr mdx"
    and "react () = Inr react_plugin"
    and "default_export mdx () = Inr mdx_plugin"
  shows "\<exists>cfg. vite_config react import_module env = Inr cfg
           \<and> field_names cfg = [''base'', ''plugins'']
           \<and> plugins_of cfg = [react_plugin, mdx_plugin]
           \<and> length (plugins_of cfg) = 2
           \<and> base_of cfg \<noteq> None"
  using assms vite_config_Inr [of import_module mdx react react_plugin mdx_plugin env]
  by (simp add: field_names_def plugins_of_def base_of_def)

text \<open>C3 on the sample packages.\<close>

theorem config_two_plugins_and_base_witness:
  "example_import ''@mdx-js/rollup'' = Inr \<lparr>default_export = (\<lambda>u. Inr ''@mdx-js/rollup'')\<rparr>
   \<and> example_react () = Inr ''vite:react''
   \<and> (\<exists>cfg. vite_config example_react example_import () = Inr cfg
           \<and> field_names cfg = [''base'', ''plugins'']
           \<and> plugins_of cfg = [''vite:react'', ''@mdx-js/rollup'']
           \<and> length (plugins_of cfg) = 2
           \<and> base_of cfg \<noteq> None)"
  using example_import_mdx example_react_plugin example_mdx_plugin
    config_two_plugins_and_base [of example_import
      "\<lparr>default_export = (\<lambda>u. Inr ''@mdx-js/rollup'')\<rparr>"
      example_react "''vite:react''" "''@mdx-js/rollup''" "()"]
  by simp

text \<open>
  C10. The export is a function of the bundler's environment, which it ignores. When the
  MDX package loads and both plugin functions return, it resolves to an object of exactly
  two fields: \<^verbatim>\<open>base\<close>, the string \<^verbatim>\<open>https://tcm5343.github.io/\<close>, an absolute URL; and
  \<^verbatim>\<open>plugins\<close>, the list of the React plugin and then the MDX plugin.
\<close>

theorem config_resolved_value:
  assumes "import_module ''@mdx-js/rollup'' = Inr mdx"
    and "react () = Inr react_plugin"
    and "default_export mdx () = Inr mdx_plugin"
  shows "vite_config react import_module env =
           Inr [(''base'', StringValue ''https://tcm5343.github.io/''),
                (''plugins'', PluginList [react_plugin, mdx_plugin])]
         \<and> (\<exists>cfg. vite_config react import_module env = Inr cfg
               \<and> length cfg = 2
               \<and> base_of cfg = Some ''https://tcm5343.github.io/''
               \<and> plugins_of cfg = [react_plugin, mdx_plugin])
         \<and> is_absolute_url ''https://tcm5343.github.io/''"
proof -
  have "is_absolute_url ''https://tcm5343.github.io/''"
    by (simp add: is_absolute_url_def)
  then show ?thesis
    using assms vite_config_Inr [of import_module mdx react react_plugin mdx_plugin env]
    by (simp add: plugins_of_def base_of_def)
qed

text \<open>C10 on the sample packages.\<close>

theorem config_resolved_value_witness:
  "example_import ''@mdx-js/rollup'' = Inr \<lparr>default_export = (\<lambda>u. Inr ''@mdx-js/rollup'')\<rparr>
   \<and> example_react () = Inr ''vite:react''
   \<and> vite_config example_react example_import () =
           Inr [(''base'', StringValue ''https://tcm5343.github.io/''),
                (''plugins'', PluginList [''vite:react'', ''@mdx-js/rollup''])]"
  using example_import_mdx example_react_plugin example_mdx_plugin
    config_resolved_value [of example_import
      "\<lparr>default_export = (\<lambda>u. Inr ''@mdx-js/rollup'')\<rparr>"
      example_react "''vite:react''" "''@mdx-js/rollup''" "()"]
  by simp

section \<open>Failure\<close>

text \<open>
  C7. A call of the component always returns a tree: no exception leaves it. The
  configuration function rejects only with the very reason with which the dynamic import
  rejected or one of the two plugin functions threw, and it resolves whenever all three
  succeed: it has no failure of its own.
\<close>

theorem no_failure_of_its_own:
  "(\<exists>tree h'. (Header_call styles props h :: 'e + vnode \<times> heap) = Inr (tree, h'))
   \<and> (vite_config react import_module env = Inl e \<longrightarrow>
        import_module ''@mdx-js/rollup'' = Inl e
        \<or> react () = Inl e
        \<or> (\<exists>mdx. import_module ''@mdx-js/rollup'' = Inr mdx \<and> default_export mdx () = Inl e))
   \<and> (import_module ''@mdx-js/rollup'' = Inr mdx \<and> react () = Inr p1
        \<and> default_export mdx () = Inr p2 \<longrightarrow>
        (\<exists>cfg. vite_config react import_module env = Inr cfg))"
proof (intro conjI impI)
  show "\<exists>tree h'. (Header_call styles props h :: 'e + vnode \<times> heap) = Inr (tree, h')"
    by (simp add: Header_call_eq)
next
  assume "vite_config react import_module env = Inl e"
  then show "import_module ''@mdx-js/rollup'' = Inl e
        \<or> react () = Inl e
        \<or> (\<exists>mdx. import_module ''@mdx-js/rollup'' = Inr mdx \<and> default_export mdx () = Inl e)"
    by (rule vite_config_Inl)
next
  assume "import_module ''@mdx-js/rollup'' = Inr mdx \<and> react () = Inr p1
        \<and> default_export mdx () = Inr p2"
  then show "\<exists>cfg. vite_config react import_module env = Inr cfg"
    using vite_config_Inr [of import_module mdx react p1 p2 env] by simp
qed

text \<open>
  C7 on the sample packages: without the MDX package the configuration rejects with the
  import's reason, and with it the configuration resolves.
\<close>

theorem no_failure_of_its_own_witness:
  "(\<exists>tree h'. (Header_call example_styles () [] :: string + vnode \<times> heap) = Inr (tree, h'))
   \<and> vite_config example_react missing_import () = Inl ''ERR_MODULE_NOT_FOUND''
   \<and> missing_import ''@mdx-js/rollup'' = Inl ''ERR_MODULE_NOT_FOUND''
   \<and> example_import ''@mdx-js/rollup'' = Inr \<lparr>default_export = (\<lambda>u. Inr ''@mdx-js/rollup'')\<rparr>
   \<and> example_react () = Inr ''vite:react''
   \<and> (\<exists>cfg. vite_config example_react example_import () = Inr cfg)"
proof -
  have f: "vite_config example_react missing_import () = Inl ''ERR_MODULE_NOT_FOUND''"
    by (simp add: vite_config_def defineConfig_def missing_import_def)
  note i = example_import_mdx and r = example_react_plugin and d = example_mdx_plugin
  note failing =
    no_failure_of_its_own [of example_styles "()" "[]" example_react missing_import "()"
      "''ERR_MODULE_NOT_FOUND''"]
  note loading =
    no_failure_of_its_own [of example_styles "()" "[]" example_react example_import "()"
      "''ERR_MODULE_NOT_FOUND''" "\<lparr>default_export = (\<lambda>u. Inr ''@mdx-js/rollup'')\<rparr>"
      "''vite:react''" "''@mdx-js/rollup''"]
  from failing
  have h: "\<exists>tree h'. (Header_call example_styles () [] :: string + vnode \<times> heap) = Inr (tree, h')"
    by (rule conjunct1)
  from failing f have "missing_import ''@mdx-js/rollup'' = Inl ''ERR_MODULE_NOT_FOUND''
      \<or> example_react () = Inl ''ERR_MODULE_NOT_FOUND''
      \<or> (\<exists>mdx. missing_import ''@mdx-js/rollup'' = Inr mdx
            \<and> default_export mdx () = Inl ''ERR_MODULE_NOT_FOUND'')"
    by blast
  with r have m: "missing_import ''@mdx-js/rollup'' = Inl ''ERR_MODULE_NOT_FOUND''"
    by (auto simp: missing_import_def)
  from loading i r d have c: "\<exists>cfg. vite_config example_react example_import () = Inr cfg"
    by blast
  from h f m i r c show ?thesis
    by blast
qed

end
